theory Spec2Isabelle
  imports Main "HOL-Library.Word" "HOL-Library.Signed_Division"
begin

unbundle bit_operations_syntax

section \<open>The Sparc machine-code emitter (SparcMCCodeEmitter.cpp)\<close>

text \<open>
  A shallow embedding of \<^verbatim>\<open>llvm/lib/Target/Sparc/MCTargetDesc/SparcMCCodeEmitter.cpp\<close>.
  C++ \<^verbatim>\<open>int64_t\<close> is \<open>64 word\<close> read through \<open>sint\<close>, \<^verbatim>\<open>unsigned\<close> is \<open>32 word\<close>.
  Every way of not returning (\<^verbatim>\<open>report_fatal_error\<close>, a failed \<^verbatim>\<open>assert\<close>,
  \<^verbatim>\<open>llvm_unreachable\<close>, undefined behaviour) is a value of type \<open>fatal\<close>.
  The fixup list a function appends to is passed in and returned.
\<close>

subsection \<open>Data\<close>

type_synonym int64_t = "64 word"
type_synonym uint64_t = "64 word"
type_synonym unsigned = "32 word"
type_synonym uint8_t = "8 word"

datatype fatal =
    report_fatal_error string
  | assertion_failed string
  | llvm_unreachable string
  | undefined_behaviour string

text \<open>
  The opcodes the emitter's own code distinguishes; every other opcode of the
  generated enumeration is \<open>OtherOpcode n\<close>.
\<close>

datatype Opcode =
    TLS_CALL
  | TLS_ADDrr
  | TLS_ADDXrr
  | TLS_LDrr
  | TLS_LDXrr
  | OtherOpcode nat

text \<open>
  The relocation kinds named in the emitter; the other enumerators of
  \<^verbatim>\<open>SparcFixupKinds.h\<close> (declared outside this file) are \<open>OtherFixupKind n\<close>.
\<close>

datatype MCFixupKind =
    fixup_sparc_13
  | fixup_sparc_got13
  | fixup_sparc_5
  | fixup_sparc_got5
  | fixup_sparc_br22
  | fixup_sparc_br19
  | fixup_sparc_br16_2
  | fixup_sparc_br16_14
  | OtherFixupKind nat

text \<open>
  Expressions, by the classes \<^verbatim>\<open>dyn_cast\<close> tells apart. A \<open>SparcMCExpr\<close> is held
  as what its accessors \<^verbatim>\<open>getFixupKind()\<close> and \<^verbatim>\<open>getSubExpr()\<close> return
  (\<^verbatim>\<open>SparcMCExpr.h\<close> is declared outside this file).
\<close>

datatype MCExpr =
    MCConstantExpr int64_t
  | MCSymbolRefExpr string
  | MCUnaryExpr nat MCExpr
  | MCBinaryExpr nat MCExpr MCExpr
  | SparcMCExpr MCFixupKind MCExpr

text \<open>
  An operand is a register, an immediate or an expression; \<open>MCOperand_Other\<close> stands
  for the remaining kinds (invalid, floating-point immediate, nested instruction),
  for which \<^verbatim>\<open>isReg()\<close>, \<^verbatim>\<open>isImm()\<close> and \<^verbatim>\<open>isExpr()\<close> are all false.
\<close>

datatype MCOperand =
    MCOperand_Reg nat
  | MCOperand_Imm int64_t
  | MCOperand_Expr MCExpr
  | MCOperand_Other

record MCInst =
  Opcode :: Opcode
  Operands :: "MCOperand list"

record MCFixup =
  getOffset :: nat
  getValue :: MCExpr
  getKind :: MCFixupKind

definition MCFixup_create :: "nat \<Rightarrow> MCExpr \<Rightarrow> MCFixupKind \<Rightarrow> MCFixup" where
  "MCFixup_create off e k = \<lparr>getOffset = off, getValue = e, getKind = k\<rparr>"

type_synonym FeatureBitset = "nat list"

text \<open>
  The emitter object with what it reaches through \<^verbatim>\<open>Ctx\<close> and through the
  TableGen-generated include \<^verbatim>\<open>SparcGenMCCodeEmitter.inc\<close>. None of these is defined
  in this file, so each is a parameter:
  \<^item> \<open>NDEBUG\<close>: whether the build compiles \<^verbatim>\<open>assert\<close> away;
  \<^item> \<open>getEncodingValue\<close>: \<^verbatim>\<open>Ctx.getRegisterInfo()->getEncodingValue\<close>, converted to the
    \<^verbatim>\<open>unsigned\<close> the callers return;
  \<^item> \<open>isPositionIndependent\<close>: \<^verbatim>\<open>Ctx.getObjectFileInfo()->isPositionIndependent()\<close>;
  \<^item> \<open>isLittleEndian\<close>: \<^verbatim>\<open>Ctx.getAsmInfo()->isLittleEndian()\<close>;
  \<^item> \<open>evaluateAsAbsolute\<close>: \<^verbatim>\<open>Expr->evaluateAsAbsolute(Res)\<close>, \<open>Some Res\<close> when it folds;
  \<^item> \<open>getBinaryCodeForInstr\<close>: the generated encoder; it reads the instruction, may append
    to the fixup list and may fail;
  \<^item> \<open>computeAvailableFeatures\<close>, \<open>verifyInstructionPredicates\<close>: the generated predicate
    verifier, \<open>Some e\<close> when it reports the fatal error \<open>e\<close>.
\<close>

record SparcMCCodeEmitter =
  NDEBUG :: bool
  getEncodingValue :: "nat \<Rightarrow> unsigned"
  isPositionIndependent :: bool
  isLittleEndian :: bool
  evaluateAsAbsolute :: "MCExpr \<Rightarrow> int64_t option"
  getBinaryCodeForInstr :: "MCInst \<Rightarrow> MCFixup list \<Rightarrow> (fatal + uint64_t) \<times> MCFixup list"
  computeAvailableFeatures :: "FeatureBitset \<Rightarrow> FeatureBitset"
  verifyInstructionPredicates :: "MCInst \<Rightarrow> FeatureBitset \<Rightarrow> fatal option"

text \<open>
  What \<^verbatim>\<open>encodeInstruction\<close> writes to: the output stream, the caller's fixup list and
  the statistic \<^verbatim>\<open>MCNumEmitted\<close>. A call that aborts returns the state at the abort.
\<close>

record EmitState =
  OS :: "uint8_t list"
  Fixups :: "MCFixup list"
  MCNumEmitted :: uint64_t

subsection \<open>Accessors that can fail\<close>

text \<open>
  A condition guarded by \<^verbatim>\<open>assert\<close>: the assertion fails in a build with assertions,
  and the code behind it has no defined behaviour in a build without.
\<close>

definition contract_violation :: "bool \<Rightarrow> string \<Rightarrow> fatal" where
  "contract_violation ndebug msg =
     (if ndebug then undefined_behaviour msg else assertion_failed msg)"

definition getOperand :: "bool \<Rightarrow> MCInst \<Rightarrow> nat \<Rightarrow> fatal + MCOperand" where
  "getOperand ndebug MI i =
     (if i < length (Operands MI) then Inr (Operands MI ! i)
      else Inl (contract_violation ndebug ''idx < size()''))"

fun dyn_cast_MCConstantExpr :: "MCExpr \<Rightarrow> int64_t option" where
  "dyn_cast_MCConstantExpr (MCConstantExpr v) = Some v"
| "dyn_cast_MCConstantExpr _ = None"

text \<open>The result pairs \<^verbatim>\<open>getFixupKind()\<close> with \<^verbatim>\<open>getSubExpr()\<close>.\<close>

fun dyn_cast_SparcMCExpr :: "MCExpr \<Rightarrow> (MCFixupKind \<times> MCExpr) option" where
  "dyn_cast_SparcMCExpr (SparcMCExpr k sub) = Some (k, sub)"
| "dyn_cast_SparcMCExpr _ = None"

text \<open>
  \<^verbatim>\<open>__builtin_ctz\<close>: the number of trailing zero bits of a 32-bit value. The
  intrinsic is undefined at 0; its callers below test for 0 first.
\<close>

definition builtin_ctz :: "unsigned \<Rightarrow> unsigned" where
  "builtin_ctz x = of_nat (length (takeWhile (\<lambda>i. \<not> bit x i) [0..<32]))"

text \<open>
  \<^verbatim>\<open>support::endian::write(OS, Bits, endian)\<close>: the four bytes of the word, least
  significant first when little-endian.
\<close>

definition endian_write :: "unsigned \<Rightarrow> bool \<Rightarrow> uint8_t list" where
  "endian_write Bits little =
     (let bytes = map (\<lambda>i. ucast (drop_bit (8 * i) Bits)) [0, 1, 2, 3]
      in if little then bytes else rev bytes)"

subsection \<open>The compact immediate encoders\<close>

definition imm5OpEncoder :: "int64_t \<Rightarrow> fatal + unsigned" where
  "imm5OpEncoder imm =
    (let value = imm in
     if value = 0 then Inr 1
     else if 255 <s value \<or> value <s 0 then
       Inl (report_fatal_error
             ''Invalid value for ImmOp5: Value must be within [0, 255] range'')
     else
       let result = (0 :: unsigned);
           (value, result) =
             (if sint value smod 2 = 1 then (value + 1, result OR 1) else (value, result));
           (value, result) =
             (if value AND 2 = 2 \<and> 2 <s value then (value - 2, result OR 16)
              else (value, result))
       in if (ucast value :: unsigned) = 0 then
            Inl (undefined_behaviour ''__builtin_ctz(0)'')
          else
            let result = result OR push_bit 1 (builtin_ctz (ucast value));
                plus = drop_bit 3 result AND 2;
                sub = result AND 1;
                exp = push_bit (unat (drop_bit 1 result AND 7)) (1 :: unsigned);
                tgt = exp + plus - sub
            in if (ucast tgt :: int64_t) \<noteq> imm then
                 Inl (report_fatal_error
                       ''Invalid value for SImmOp5: Value must be representable by immediate{4}*2+2^(immediate{3-1})-immediate{0}'')
               else Inr result)"

text \<open>
  In \<^verbatim>\<open>sign * (exp - sub)\<close> the \<^verbatim>\<open>signed\<close> sign is converted to \<^verbatim>\<open>unsigned\<close>, the
  product wraps at 32 bits and is read back as \<^verbatim>\<open>signed\<close>; the comparison with
  \<^verbatim>\<open>imm\<close> sign-extends it to 64 bits.
\<close>

definition sImm5OpEncoder :: "int64_t \<Rightarrow> fatal + unsigned" where
  "sImm5OpEncoder imm =
    (let value = imm in
     if value = 0 then Inr 1
     else if 127 <s value \<or> value <s - 128 then
       Inl (report_fatal_error
             ''Invalid value for SImmOp5: Value must be within [127, -128] range'')
     else
       let result = (0 :: unsigned);
           (value, result) = (if value <s 0 then (- value, 16) else (value, result));
           (value, result) =
             (if sint value smod 2 = 1 then (value + 1, result OR 1) else (value, result))
       in if (ucast value :: unsigned) = 0 then
            Inl (undefined_behaviour ''__builtin_ctz(0)'')
          else
            let result = result OR push_bit 1 (builtin_ctz (ucast value));
                sign = (if drop_bit 4 result \<noteq> 0 then - 1 else 1 :: unsigned);
                sub = result AND 1;
                exp = push_bit (unat (drop_bit 1 result AND 7)) (1 :: unsigned);
                tgt = sign * (exp - sub)
            in if (scast tgt :: int64_t) \<noteq> imm then
                 Inl (report_fatal_error
                       ''Invalid value for SImmOp5: Value must be representable by immediate{4}?-1:1*(2^(immediate{3-1})-immediate{0})'')
               else Inr result)"

text \<open>
  The decode formulas as the specification words them, on the integers:
  \<open>2^((code>>1)&0b111) + 2*((code>>4)&1) - (code&1)\<close> for the unsigned form and
  \<open>sign * (2^((code>>1)&0b111) - (code&1))\<close>, \<open>sign = -1\<close> when bit 4 is set, for
  the signed form.
\<close>

definition spec_imm5_decode :: "unsigned \<Rightarrow> int" where
  "spec_imm5_decode code =
     2 ^ unat (drop_bit 1 code AND 7) + 2 * uint (drop_bit 4 code AND 1) - uint (code AND 1)"

definition spec_simm5_decode :: "unsigned \<Rightarrow> int" where
  "spec_simm5_decode code =
     (if bit code 4 then - 1 else 1) * (2 ^ unat (drop_bit 1 code AND 7) - uint (code AND 1))"

subsection \<open>Operand values\<close>

definition getMachineOpValue ::
  "SparcMCCodeEmitter \<Rightarrow> MCInst \<Rightarrow> MCOperand \<Rightarrow> MCFixup list \<Rightarrow> (fatal + unsigned) \<times> MCFixup list"
where
  "getMachineOpValue E MI MO Fx =
    (case MO of
       MCOperand_Reg r \<Rightarrow> (Inr (getEncodingValue E r), Fx)
     | MCOperand_Imm i \<Rightarrow> (Inr (ucast i), Fx)
     | MCOperand_Other \<Rightarrow> (Inl (contract_violation (NDEBUG E) ''MO.isExpr()''), Fx)
     | MCOperand_Expr Expr \<Rightarrow>
         (case dyn_cast_SparcMCExpr Expr of
            Some (Kind, sub) \<Rightarrow> (Inr 0, Fx @ [MCFixup_create 0 Expr Kind])
          | None \<Rightarrow>
              (case evaluateAsAbsolute E Expr of
                 Some Res \<Rightarrow> (Inr (ucast Res), Fx)
               | None \<Rightarrow> (Inl (llvm_unreachable ''Unhandled expression!''), Fx))))"

definition getSImm13OpValue ::
  "SparcMCCodeEmitter \<Rightarrow> MCInst \<Rightarrow> nat \<Rightarrow> MCFixup list \<Rightarrow> (fatal + unsigned) \<times> MCFixup list"
where
  "getSImm13OpValue E MI OpNo Fx =
    (case getOperand (NDEBUG E) MI OpNo of
       Inl e \<Rightarrow> (Inl e, Fx)
     | Inr MO \<Rightarrow>
        (case MO of
           MCOperand_Imm i \<Rightarrow> (Inr (ucast i), Fx)
         | MCOperand_Expr Expr \<Rightarrow>
            (case dyn_cast_MCConstantExpr Expr of
               Some v \<Rightarrow> (Inr (ucast v), Fx)
             | None \<Rightarrow>
                (let Kind =
                   (case dyn_cast_SparcMCExpr Expr of
                      Some (k, sub) \<Rightarrow> k
                    | None \<Rightarrow>
                       (let IsPic = isPositionIndependent E
                        in if IsPic then fixup_sparc_got13 else fixup_sparc_13))
                 in (Inr 0, Fx @ [MCFixup_create 0 Expr Kind])))
         | _ \<Rightarrow>
            (Inl (contract_violation (NDEBUG E)
                   ''getSImm13OpValue expects only expressions or an immediate''), Fx)))"

definition getImm5OpValue ::
  "SparcMCCodeEmitter \<Rightarrow> MCInst \<Rightarrow> nat \<Rightarrow> MCFixup list \<Rightarrow> (fatal + unsigned) \<times> MCFixup list"
where
  "getImm5OpValue E MI OpNo Fx =
    (case getOperand (NDEBUG E) MI OpNo of
       Inl e \<Rightarrow> (Inl e, Fx)
     | Inr MO \<Rightarrow>
        (case MO of
           MCOperand_Imm i \<Rightarrow> (imm5OpEncoder i, Fx)
         | MCOperand_Expr Expr \<Rightarrow>
            (case dyn_cast_MCConstantExpr Expr of
               Some v \<Rightarrow> (imm5OpEncoder v, Fx)
             | None \<Rightarrow>
                (let Kind =
                   (case dyn_cast_SparcMCExpr Expr of
                      Some (k, sub) \<Rightarrow> k
                    | None \<Rightarrow>
                       (let IsPic = isPositionIndependent E
                        in if IsPic then fixup_sparc_got5 else fixup_sparc_5))
                 in (Inr 0, Fx @ [MCFixup_create 0 Expr Kind])))
         | _ \<Rightarrow>
            (Inl (contract_violation (NDEBUG E)
                   ''getSImm5OpValue expects only expressions or an immediate''), Fx)))"

definition getSImm5OpValue ::
  "SparcMCCodeEmitter \<Rightarrow> MCInst \<Rightarrow> nat \<Rightarrow> MCFixup list \<Rightarrow> (fatal + unsigned) \<times> MCFixup list"
where
  "getSImm5OpValue E MI OpNo Fx =
    (case getOperand (NDEBUG E) MI OpNo of
       Inl e \<Rightarrow> (Inl e, Fx)
     | Inr MO \<Rightarrow>
        (case MO of
           MCOperand_Imm i \<Rightarrow> (sImm5OpEncoder i, Fx)
         | MCOperand_Expr Expr \<Rightarrow>
            (case dyn_cast_MCConstantExpr Expr of
               Some v \<Rightarrow> (sImm5OpEncoder v, Fx)
             | None \<Rightarrow>
                (let Kind =
                   (case dyn_cast_SparcMCExpr Expr of
                      Some (k, sub) \<Rightarrow> k
                    | None \<Rightarrow>
                       (let IsPic = isPositionIndependent E
                        in if IsPic then fixup_sparc_got5 else fixup_sparc_5))
                 in (Inr 0, Fx @ [MCFixup_create 0 Expr Kind])))
         | _ \<Rightarrow>
            (Inl (contract_violation (NDEBUG E)
                   ''getSImm5OpValue expects only expressions or an immediate''), Fx)))"

text \<open>
  For \<^verbatim>\<open>TLS_CALL\<close> the two assertions on the callee are compiled only without
  \<^verbatim>\<open>NDEBUG\<close>. For any other opcode \<^verbatim>\<open>SExpr->getFixupKind()\<close> dereferences the
  result of the \<^verbatim>\<open>dyn_cast\<close>, which is null for an expression of another class.
\<close>

definition getCallTargetOpValue ::
  "SparcMCCodeEmitter \<Rightarrow> MCInst \<Rightarrow> nat \<Rightarrow> MCFixup list \<Rightarrow> (fatal + unsigned) \<times> MCFixup list"
where
  "getCallTargetOpValue E MI OpNo Fx =
    (case getOperand (NDEBUG E) MI OpNo of
       Inl e \<Rightarrow> (Inl e, Fx)
     | Inr MO \<Rightarrow>
        (case MO of
           MCOperand_Expr Expr \<Rightarrow>
            (let SExpr = dyn_cast_SparcMCExpr Expr in
             if Opcode MI = TLS_CALL then
               (if NDEBUG E then (Inr 0, Fx)
                else
                  (case SExpr of
                     Some (k, MCSymbolRefExpr name) \<Rightarrow>
                       if name = ''__tls_get_addr'' then (Inr 0, Fx)
                       else (Inl (assertion_failed ''Unexpected function for TLS_CALL''), Fx)
                   | _ \<Rightarrow> (Inl (assertion_failed ''Unexpected expression in TLS_CALL''), Fx)))
             else
               (case SExpr of
                  None \<Rightarrow> (Inl (undefined_behaviour ''SExpr->getFixupKind()''), Fx)
                | Some (Kind, sub) \<Rightarrow> (Inr 0, Fx @ [MCFixup_create 0 Expr Kind])))
         | _ \<Rightarrow> (Inl (contract_violation (NDEBUG E) ''This is not an expression''), Fx)))"

definition getBranchTargetOpValue ::
  "SparcMCCodeEmitter \<Rightarrow> MCInst \<Rightarrow> nat \<Rightarrow> MCFixup list \<Rightarrow> (fatal + unsigned) \<times> MCFixup list"
where
  "getBranchTargetOpValue E MI OpNo Fx =
    (case getOperand (NDEBUG E) MI OpNo of
       Inl e \<Rightarrow> (Inl e, Fx)
     | Inr MO \<Rightarrow>
        (case MO of
           MCOperand_Reg r \<Rightarrow> getMachineOpValue E MI MO Fx
         | MCOperand_Imm i \<Rightarrow> getMachineOpValue E MI MO Fx
         | MCOperand_Expr Expr \<Rightarrow> (Inr 0, Fx @ [MCFixup_create 0 Expr fixup_sparc_br22])
         | MCOperand_Other \<Rightarrow>
            (Inl (contract_violation (NDEBUG E) ''This is not an expression''), Fx)))"

definition getBranchPredTargetOpValue ::
  "SparcMCCodeEmitter \<Rightarrow> MCInst \<Rightarrow> nat \<Rightarrow> MCFixup list \<Rightarrow> (fatal + unsigned) \<times> MCFixup list"
where
  "getBranchPredTargetOpValue E MI OpNo Fx =
    (case getOperand (NDEBUG E) MI OpNo of
       Inl e \<Rightarrow> (Inl e, Fx)
     | Inr MO \<Rightarrow>
        (case MO of
           MCOperand_Reg r \<Rightarrow> getMachineOpValue E MI MO Fx
         | MCOperand_Imm i \<Rightarrow> getMachineOpValue E MI MO Fx
         | MCOperand_Expr Expr \<Rightarrow> (Inr 0, Fx @ [MCFixup_create 0 Expr fixup_sparc_br19])
         | MCOperand_Other \<Rightarrow>
            (Inl (contract_violation (NDEBUG E) ''This is not an expression''), Fx)))"

definition getBranchOnRegTargetOpValue ::
  "SparcMCCodeEmitter \<Rightarrow> MCInst \<Rightarrow> nat \<Rightarrow> MCFixup list \<Rightarrow> (fatal + unsigned) \<times> MCFixup list"
where
  "getBranchOnRegTargetOpValue E MI OpNo Fx =
    (case getOperand (NDEBUG E) MI OpNo of
       Inl e \<Rightarrow> (Inl e, Fx)
     | Inr MO \<Rightarrow>
        (case MO of
           MCOperand_Reg r \<Rightarrow> getMachineOpValue E MI MO Fx
         | MCOperand_Imm i \<Rightarrow> getMachineOpValue E MI MO Fx
         | MCOperand_Expr Expr \<Rightarrow>
            (Inr 0, (Fx @ [MCFixup_create 0 Expr fixup_sparc_br16_2])
                      @ [MCFixup_create 0 Expr fixup_sparc_br16_14])
         | MCOperand_Other \<Rightarrow>
            (Inl (contract_violation (NDEBUG E) ''This is not an expression''), Fx)))"

subsection \<open>Encoding one instruction\<close>

text \<open>The \<^verbatim>\<open>switch\<close> on the opcode that picks the operand carrying the TLS symbol.\<close>

fun tlsOpNo :: "Opcode \<Rightarrow> nat" where
  "tlsOpNo TLS_CALL = 1"
| "tlsOpNo TLS_ADDrr = 3"
| "tlsOpNo TLS_ADDXrr = 3"
| "tlsOpNo TLS_LDrr = 3"
| "tlsOpNo TLS_LDXrr = 3"
| "tlsOpNo (OtherOpcode n) = 0"

definition encodeInstruction ::
  "SparcMCCodeEmitter \<Rightarrow> MCInst \<Rightarrow> FeatureBitset \<Rightarrow> EmitState \<Rightarrow> (fatal + unit) \<times> EmitState"
where
  "encodeInstruction E MI FeatureBits st =
    (case verifyInstructionPredicates E MI (computeAvailableFeatures E FeatureBits) of
       Some e \<Rightarrow> (Inl e, st)
     | None \<Rightarrow>
        (case getBinaryCodeForInstr E MI (Fixups st) of
           (Inl e, Fx) \<Rightarrow> (Inl e, st\<lparr>Fixups := Fx\<rparr>)
         | (Inr Bits64, Fx) \<Rightarrow>
            (let Bits = (ucast Bits64 :: unsigned);
                 st1 = st\<lparr>OS := OS st @ endian_write Bits (isLittleEndian E), Fixups := Fx\<rparr>
             in if tlsOpNo (Opcode MI) \<noteq> 0 then
                  (case getOperand (NDEBUG E) MI (tlsOpNo (Opcode MI)) of
                     Inl e \<Rightarrow> (Inl e, st1)
                   | Inr MO \<Rightarrow>
                      (case getMachineOpValue E MI MO (Fixups st1) of
                         (Inl e, Fx') \<Rightarrow> (Inl e, st1\<lparr>Fixups := Fx'\<rparr>)
                       | (Inr op, Fx') \<Rightarrow>
                          if \<not> NDEBUG E \<and> (ucast op :: uint64_t) \<noteq> 0 then
                            (Inl (assertion_failed ''Unexpected operand value!''),
                             st1\<lparr>Fixups := Fx'\<rparr>)
                          else
                            (Inr (),
                             st1\<lparr>Fixups := Fx', MCNumEmitted := MCNumEmitted st1 + 1\<rparr>)))
                else (Inr (), st1\<lparr>MCNumEmitted := MCNumEmitted st1 + 1\<rparr>))))"

subsection \<open>A concrete emitter\<close>

text \<open>
  An emitter for evaluating the functions above on concrete instructions: a big-endian
  target whose register encoding is the register number and whose expression folder
  folds constants only; the build flag, the position-independence flag, the generated
  encoder and the predicate verifier are arguments.
\<close>

definition sample_emitter ::
  "bool \<Rightarrow> bool \<Rightarrow> (MCInst \<Rightarrow> MCFixup list \<Rightarrow> (fatal + uint64_t) \<times> MCFixup list) \<Rightarrow>
   (MCInst \<Rightarrow> FeatureBitset \<Rightarrow> fatal option) \<Rightarrow> SparcMCCodeEmitter" where
  "sample_emitter ndebug pic gen verify =
     \<lparr>NDEBUG = ndebug,
      getEncodingValue = of_nat,
      isPositionIndependent = pic,
      isLittleEndian = False,
      evaluateAsAbsolute = dyn_cast_MCConstantExpr,
      getBinaryCodeForInstr = gen,
      computeAvailableFeatures = (\<lambda>FB. FB),
      verifyInstructionPredicates = verify\<rparr>"

section \<open>Properties\<close>

text \<open>
  C9. Both compact encoders map the input 0 to the code \<open>0b00001\<close>: the test for 0 is
  the first one in each, ahead of the range check and of every bit operation.
\<close>

theorem encoders_zero:
  "imm5OpEncoder 0 = Inr 1 \<and> sImm5OpEncoder 0 = Inr 1"
  by (simp add: imm5OpEncoder_def sImm5OpEncoder_def)

subsection \<open>The compact encoders on their domains\<close>

text \<open>
  Both encoders are run on every value of their domain; the two tables below are
  what the later statements about whole domains rest on.
\<close>

lemma imm5_exhaustive:
  "list_all (\<lambda>k.
      if k \<in> {0..10} \<union> {15..18} \<union> {31..34} \<union> {63..66} \<union> {127..130}
      then (case imm5OpEncoder (word_of_int k) of
              Inr code \<Rightarrow> code < 32 \<and> spec_imm5_decode code = k
            | Inl e \<Rightarrow> False)
      else imm5OpEncoder (word_of_int k) =
             Inl (report_fatal_error
                   ''Invalid value for SImmOp5: Value must be representable by immediate{4}*2+2^(immediate{3-1})-immediate{0}''))
    [0..255]"
  by code_simp

lemma simm5_exhaustive:
  "list_all (\<lambda>k.
      if \<bar>k\<bar> \<in> {0..4} \<union> {7, 8, 15, 16, 31, 32, 63, 64, 127} \<or> k = - 128
      then (case sImm5OpEncoder (word_of_int k) of
              Inr code \<Rightarrow> code < 32 \<and> spec_simm5_decode code = k
            | Inl e \<Rightarrow> False)
      else sImm5OpEncoder (word_of_int k) =
             Inl (report_fatal_error
                   ''Invalid value for SImmOp5: Value must be representable by immediate{4}?-1:1*(2^(immediate{3-1})-immediate{0})''))
    [-128..127]"
  by code_simp

lemma imm5_all:
  "k \<in> {0..255} \<Longrightarrow>
     (if k \<in> {0..10} \<union> {15..18} \<union> {31..34} \<union> {63..66} \<union> {127..130}
      then (case imm5OpEncoder (word_of_int k) of
              Inr code \<Rightarrow> code < 32 \<and> spec_imm5_decode code = k
            | Inl e \<Rightarrow> False)
      else imm5OpEncoder (word_of_int k) =
             Inl (report_fatal_error
                   ''Invalid value for SImmOp5: Value must be representable by immediate{4}*2+2^(immediate{3-1})-immediate{0}''))"
  using imm5_exhaustive unfolding list_all_iff set_upto by (rule bspec)

lemma simm5_all:
  "k \<in> {-128..127} \<Longrightarrow>
     (if \<bar>k\<bar> \<in> {0..4} \<union> {7, 8, 15, 16, 31, 32, 63, 64, 127} \<or> k = - 128
      then (case sImm5OpEncoder (word_of_int k) of
              Inr code \<Rightarrow> code < 32 \<and> spec_simm5_decode code = k
            | Inl e \<Rightarrow> False)
      else sImm5OpEncoder (word_of_int k) =
             Inl (report_fatal_error
                   ''Invalid value for SImmOp5: Value must be representable by immediate{4}?-1:1*(2^(immediate{3-1})-immediate{0})''))"
  using simm5_exhaustive unfolding list_all_iff set_upto by (rule bspec)

text \<open>
  C1, as stated: for every \<open>v\<close> in \<open>[0, 255]\<close> the unsigned encoder returns and the
  decode formula gives \<open>v\<close> back. It fails at \<open>v = 11\<close>: 11 is odd, so the value
  becomes 12 and bit 0 is set; bit 1 of 12 is clear; the lowest set bit of 12 is bit 2,
  so the code is \<open>0b00101\<close>, which decodes to 3, and the verification reports the
  fatal error.
\<close>

theorem imm5OpEncoder_roundtrip_counterexample:
  "0 \<le> sint (11 :: int64_t) \<and> sint (11 :: int64_t) \<le> 255 \<and>
   imm5OpEncoder 11 =
     Inl (report_fatal_error
           ''Invalid value for SImmOp5: Value must be representable by immediate{4}*2+2^(immediate{3-1})-immediate{0}'')"
  by code_simp

text \<open>
  C1, amended: for every \<open>v\<close> in \<open>[0, 255]\<close>, if \<open>v\<close> is one of the 27 values
  0..10, 15..18, 31..34, 63..66, 127..130 (the values \<open>2^e + 2p - s\<close> with \<open>e\<close> in
  0..7 and \<open>p\<close>, \<open>s\<close> in \<open>{0, 1}\<close>), the unsigned encoder returns a code below 32
  whose decode is \<open>v\<close>; for every other \<open>v\<close> in \<open>[0, 255]\<close> its verification
  fires and it fails with the representability error.
\<close>

theorem imm5OpEncoder_roundtrip:
  fixes v :: int64_t
  assumes "0 \<le> sint v" and "sint v \<le> 255"
  shows "if sint v \<in> {0..10} \<union> {15..18} \<union> {31..34} \<union> {63..66} \<union> {127..130}
         then \<exists>code. imm5OpEncoder v = Inr code \<and> code < 32 \<and> spec_imm5_decode code = sint v
         else imm5OpEncoder v =
             Inl (report_fatal_error
                   ''Invalid value for SImmOp5: Value must be representable by immediate{4}*2+2^(immediate{3-1})-immediate{0}'')"
proof -
  from assms have mem: "sint v \<in> {0..255}" by simp
  have w: "word_of_int (sint v) = v" by simp
  show ?thesis
    using imm5_all [OF mem] unfolding w
    by (cases "imm5OpEncoder v") (simp_all split: if_splits)
qed

theorem imm5OpEncoder_roundtrip_witness:
  "(\<exists>code. imm5OpEncoder 3 = Inr code \<and> code < 32 \<and> spec_imm5_decode code = 3)
   \<and> imm5OpEncoder 12 =
       Inl (report_fatal_error
             ''Invalid value for SImmOp5: Value must be representable by immediate{4}*2+2^(immediate{3-1})-immediate{0}'')"
  using imm5OpEncoder_roundtrip [of 3] imm5OpEncoder_roundtrip [of 12] by simp

text \<open>
  C2, as stated: for every \<open>v\<close> in \<open>[-128, 127]\<close> the signed encoder returns and the
  decode formula gives \<open>v\<close> back. It fails at \<open>v = 5\<close>: 5 is odd, so the value
  becomes 6 and bit 0 is set; the lowest set bit of 6 is bit 1, so the code is
  \<open>0b00011\<close>, which decodes to 1, and the verification reports the fatal error.
\<close>

theorem sImm5OpEncoder_roundtrip_counterexample:
  "- 128 \<le> sint (5 :: int64_t) \<and> sint (5 :: int64_t) \<le> 127 \<and>
   sImm5OpEncoder 5 =
     Inl (report_fatal_error
           ''Invalid value for SImmOp5: Value must be representable by immediate{4}?-1:1*(2^(immediate{3-1})-immediate{0})'')"
  by code_simp

text \<open>
  C2, amended: for every \<open>v\<close> in \<open>[-128, 127]\<close>, if \<open>\<bar>v\<bar>\<close> is one of
  0, 1, 2, 3, 4, 7, 8, 15, 16, 31, 32, 63, 64, 127 or \<open>v = -128\<close> (the values
  \<open>\<plusminus>(2^e - s)\<close> with \<open>e\<close> in 0..7 and \<open>s\<close> in \<open>{0, 1}\<close> that lie in the domain), the
  signed encoder returns a code below 32 whose decode is \<open>v\<close>; for every other \<open>v\<close>
  in \<open>[-128, 127]\<close> its verification fires and it fails with the representability
  error.
\<close>

theorem sImm5OpEncoder_roundtrip:
  fixes v :: int64_t
  assumes "- 128 \<le> sint v" and "sint v \<le> 127"
  shows "if \<bar>sint v\<bar> \<in> {0..4} \<union> {7, 8, 15, 16, 31, 32, 63, 64, 127} \<or> sint v = - 128
         then \<exists>code. sImm5OpEncoder v = Inr code \<and> code < 32 \<and> spec_simm5_decode code = sint v
         else sImm5OpEncoder v =
             Inl (report_fatal_error
                   ''Invalid value for SImmOp5: Value must be representable by immediate{4}?-1:1*(2^(immediate{3-1})-immediate{0})'')"
proof -
  from assms have mem: "sint v \<in> {-128..127}" by simp
  have w: "word_of_int (sint v) = v" by simp
  show ?thesis
    using simm5_all [OF mem] unfolding w
    by (cases "sImm5OpEncoder v") (simp_all split: if_splits)
qed

theorem sImm5OpEncoder_roundtrip_witness:
  "(\<exists>code. sImm5OpEncoder (- 4) = Inr code \<and> code < 32 \<and> spec_simm5_decode code = - 4)
   \<and> sImm5OpEncoder 6 =
       Inl (report_fatal_error
             ''Invalid value for SImmOp5: Value must be representable by immediate{4}?-1:1*(2^(immediate{3-1})-immediate{0})'')"
  using sImm5OpEncoder_roundtrip [of "- 4"] sImm5OpEncoder_roundtrip [of 6] by simp

text \<open>
  C3. Every \<open>v\<close> outside \<open>[0, 255]\<close> makes the unsigned encoder fail with its range
  error, and every \<open>v\<close> outside \<open>[-128, 127]\<close> makes the signed encoder fail with its
  range error: such a \<open>v\<close> is not 0, and the range test comes before every bit
  operation, so no code is returned for it.
\<close>

theorem encoders_out_of_domain:
  fixes v :: int64_t
  shows "(sint v < 0 \<or> 255 < sint v \<longrightarrow>
            imm5OpEncoder v =
              Inl (report_fatal_error
                    ''Invalid value for ImmOp5: Value must be within [0, 255] range''))
       \<and> (sint v < - 128 \<or> 127 < sint v \<longrightarrow>
            sImm5OpEncoder v =
              Inl (report_fatal_error
                    ''Invalid value for SImmOp5: Value must be within [127, -128] range''))"
proof (intro conjI impI)
  assume a: "sint v < 0 \<or> 255 < sint v"
  then have "v \<noteq> 0" by auto
  moreover from a have "255 <s v \<or> v <s 0" by (auto simp: word_sless_alt)
  ultimately show "imm5OpEncoder v =
      Inl (report_fatal_error ''Invalid value for ImmOp5: Value must be within [0, 255] range'')"
    by (simp add: imm5OpEncoder_def)
next
  assume a: "sint v < - 128 \<or> 127 < sint v"
  then have "v \<noteq> 0" by auto
  moreover from a have "127 <s v \<or> v <s - 128" by (auto simp: word_sless_alt)
  ultimately show "sImm5OpEncoder v =
      Inl (report_fatal_error ''Invalid value for SImmOp5: Value must be within [127, -128] range'')"
    by (simp add: sImm5OpEncoder_def)
qed

theorem encoders_out_of_domain_witness:
  "imm5OpEncoder 256 =
     Inl (report_fatal_error ''Invalid value for ImmOp5: Value must be within [0, 255] range'')
   \<and> imm5OpEncoder (- 1) =
     Inl (report_fatal_error ''Invalid value for ImmOp5: Value must be within [0, 255] range'')
   \<and> sImm5OpEncoder 128 =
     Inl (report_fatal_error ''Invalid value for SImmOp5: Value must be within [127, -128] range'')
   \<and> sImm5OpEncoder (- 129) =
     Inl (report_fatal_error ''Invalid value for SImmOp5: Value must be within [127, -128] range'')"
  using encoders_out_of_domain [of 256] encoders_out_of_domain [of "- 1"]
        encoders_out_of_domain [of 128] encoders_out_of_domain [of "- 129"]
  by simp

subsection \<open>Fixups of the operand encoders\<close>

text \<open>
  C4. For an operand of \<^verbatim>\<open>getSImm13OpValue\<close> or \<^verbatim>\<open>getImm5OpValue\<close> that is an
  expression and not a constant: the call returns 0 and appends one fixup for that
  expression, whose kind is the expression's own fixup kind when it is a
  \<open>SparcMCExpr\<close>, and otherwise \<open>fixup_sparc_got13\<close> (respectively
  \<open>fixup_sparc_got5\<close>) when the emitter is position independent and
  \<open>fixup_sparc_13\<close> (respectively \<open>fixup_sparc_5\<close>) when it is not.
\<close>

theorem immediate_fixup_kind:
  assumes "OpNo < length (Operands MI)"
      and "Operands MI ! OpNo = MCOperand_Expr Expr"
      and "dyn_cast_MCConstantExpr Expr = None"
  shows "getSImm13OpValue E MI OpNo Fx =
           (Inr 0, Fx @ [MCFixup_create 0 Expr
              (case Expr of
                 SparcMCExpr k sub \<Rightarrow> k
               | _ \<Rightarrow> if isPositionIndependent E then fixup_sparc_got13 else fixup_sparc_13)])
       \<and> getImm5OpValue E MI OpNo Fx =
           (Inr 0, Fx @ [MCFixup_create 0 Expr
              (case Expr of
                 SparcMCExpr k sub \<Rightarrow> k
               | _ \<Rightarrow> if isPositionIndependent E then fixup_sparc_got5 else fixup_sparc_5)])"
  using assms
  by (cases Expr) (simp_all add: getSImm13OpValue_def getImm5OpValue_def getOperand_def)

theorem immediate_fixup_kind_witness:
  "getSImm13OpValue (sample_emitter False True (\<lambda>MI Fx. (Inr 0, Fx)) (\<lambda>MI FB. None))
      \<lparr>Opcode = OtherOpcode 0, Operands = [MCOperand_Reg 1, MCOperand_Expr (MCSymbolRefExpr ''x'')]\<rparr> 1 []
     = (Inr 0, [MCFixup_create 0 (MCSymbolRefExpr ''x'') fixup_sparc_got13])
   \<and> getImm5OpValue (sample_emitter False True (\<lambda>MI Fx. (Inr 0, Fx)) (\<lambda>MI FB. None))
      \<lparr>Opcode = OtherOpcode 0, Operands = [MCOperand_Reg 1, MCOperand_Expr (MCSymbolRefExpr ''x'')]\<rparr> 1 []
     = (Inr 0, [MCFixup_create 0 (MCSymbolRefExpr ''x'') fixup_sparc_got5])
   \<and> getSImm13OpValue (sample_emitter False False (\<lambda>MI Fx. (Inr 0, Fx)) (\<lambda>MI FB. None))
      \<lparr>Opcode = OtherOpcode 0, Operands = [MCOperand_Reg 1, MCOperand_Expr (MCSymbolRefExpr ''x'')]\<rparr> 1 []
     = (Inr 0, [MCFixup_create 0 (MCSymbolRefExpr ''x'') fixup_sparc_13])
   \<and> getImm5OpValue (sample_emitter False True (\<lambda>MI Fx. (Inr 0, Fx)) (\<lambda>MI FB. None))
      \<lparr>Opcode = OtherOpcode 0,
       Operands = [MCOperand_Expr (SparcMCExpr (OtherFixupKind 3) (MCSymbolRefExpr ''x''))]\<rparr> 0 []
     = (Inr 0, [MCFixup_create 0 (SparcMCExpr (OtherFixupKind 3) (MCSymbolRefExpr ''x''))
                 (OtherFixupKind 3)])"
  using immediate_fixup_kind [of 1
          "\<lparr>Opcode = OtherOpcode 0, Operands = [MCOperand_Reg 1, MCOperand_Expr (MCSymbolRefExpr ''x'')]\<rparr>"
          "MCSymbolRefExpr ''x''" "sample_emitter False True (\<lambda>MI Fx. (Inr 0, Fx)) (\<lambda>MI FB. None)" "[]"]
        immediate_fixup_kind [of 1
          "\<lparr>Opcode = OtherOpcode 0, Operands = [MCOperand_Reg 1, MCOperand_Expr (MCSymbolRefExpr ''x'')]\<rparr>"
          "MCSymbolRefExpr ''x''" "sample_emitter False False (\<lambda>MI Fx. (Inr 0, Fx)) (\<lambda>MI FB. None)" "[]"]
        immediate_fixup_kind [of 0
          "\<lparr>Opcode = OtherOpcode 0,
            Operands = [MCOperand_Expr (SparcMCExpr (OtherFixupKind 3) (MCSymbolRefExpr ''x''))]\<rparr>"
          "SparcMCExpr (OtherFixupKind 3) (MCSymbolRefExpr ''x'')" "sample_emitter False True (\<lambda>MI Fx. (Inr 0, Fx)) (\<lambda>MI FB. None)" "[]"]
  by (simp add: sample_emitter_def)


text \<open>
  C5. For an operand of \<^verbatim>\<open>getBranchOnRegTargetOpValue\<close> that is an expression, the
  call returns 0 and appends exactly two fixups for that expression, in this order:
  \<open>fixup_sparc_br16_2\<close>, then \<open>fixup_sparc_br16_14\<close>.
\<close>

theorem branch_on_reg_two_fixups:
  assumes "OpNo < length (Operands MI)"
      and "Operands MI ! OpNo = MCOperand_Expr Expr"
  shows "getBranchOnRegTargetOpValue E MI OpNo Fx =
           (Inr 0, Fx @ [MCFixup_create 0 Expr fixup_sparc_br16_2,
                         MCFixup_create 0 Expr fixup_sparc_br16_14])"
  using assms by (simp add: getBranchOnRegTargetOpValue_def getOperand_def)

theorem branch_on_reg_two_fixups_witness:
  "getBranchOnRegTargetOpValue (sample_emitter True False (\<lambda>MI Fx. (Inr 0, Fx)) (\<lambda>MI FB. None))
      \<lparr>Opcode = OtherOpcode 5, Operands = [MCOperand_Reg 2, MCOperand_Expr (MCSymbolRefExpr ''loop'')]\<rparr>
      1 [MCFixup_create 0 (MCSymbolRefExpr ''a'') fixup_sparc_13]
   = (Inr 0, [MCFixup_create 0 (MCSymbolRefExpr ''a'') fixup_sparc_13,
              MCFixup_create 0 (MCSymbolRefExpr ''loop'') fixup_sparc_br16_2,
              MCFixup_create 0 (MCSymbolRefExpr ''loop'') fixup_sparc_br16_14])"
  using branch_on_reg_two_fixups [of 1
          "\<lparr>Opcode = OtherOpcode 5, Operands = [MCOperand_Reg 2, MCOperand_Expr (MCSymbolRefExpr ''loop'')]\<rparr>"
          "MCSymbolRefExpr ''loop''" "sample_emitter True False (\<lambda>MI Fx. (Inr 0, Fx)) (\<lambda>MI FB. None)"
          "[MCFixup_create 0 (MCSymbolRefExpr ''a'') fixup_sparc_13]"]
  by simp


text \<open>
  C7. \<^verbatim>\<open>getBranchTargetOpValue\<close> on a register operand returns the register's
  encoding, on an immediate operand the immediate (at the width of \<^verbatim>\<open>unsigned\<close>),
  in both cases with the fixup list unchanged; on an expression operand it returns 0
  and appends exactly one fixup, of kind \<open>fixup_sparc_br22\<close>.
\<close>

theorem branch_target_value:
  assumes "OpNo < length (Operands MI)"
  shows "(\<forall>r. Operands MI ! OpNo = MCOperand_Reg r \<longrightarrow>
            getBranchTargetOpValue E MI OpNo Fx = (Inr (getEncodingValue E r), Fx))
       \<and> (\<forall>i. Operands MI ! OpNo = MCOperand_Imm i \<longrightarrow>
            getBranchTargetOpValue E MI OpNo Fx = (Inr (ucast i), Fx))
       \<and> (\<forall>Expr. Operands MI ! OpNo = MCOperand_Expr Expr \<longrightarrow>
            getBranchTargetOpValue E MI OpNo Fx =
              (Inr 0, Fx @ [MCFixup_create 0 Expr fixup_sparc_br22]))"
  using assms
  by (simp add: getBranchTargetOpValue_def getOperand_def getMachineOpValue_def)

theorem branch_target_value_witness:
  "getBranchTargetOpValue (sample_emitter False False (\<lambda>MI Fx. (Inr 0, Fx)) (\<lambda>MI FB. None))
      \<lparr>Opcode = OtherOpcode 9,
       Operands = [MCOperand_Reg 5, MCOperand_Imm 12, MCOperand_Expr (MCSymbolRefExpr ''L'')]\<rparr> 0 []
     = (Inr 5, [])
   \<and> getBranchTargetOpValue (sample_emitter False False (\<lambda>MI Fx. (Inr 0, Fx)) (\<lambda>MI FB. None))
      \<lparr>Opcode = OtherOpcode 9,
       Operands = [MCOperand_Reg 5, MCOperand_Imm 12, MCOperand_Expr (MCSymbolRefExpr ''L'')]\<rparr> 1 []
     = (Inr 12, [])
   \<and> getBranchTargetOpValue (sample_emitter False False (\<lambda>MI Fx. (Inr 0, Fx)) (\<lambda>MI FB. None))
      \<lparr>Opcode = OtherOpcode 9,
       Operands = [MCOperand_Reg 5, MCOperand_Imm 12, MCOperand_Expr (MCSymbolRefExpr ''L'')]\<rparr> 2 []
     = (Inr 0, [MCFixup_create 0 (MCSymbolRefExpr ''L'') fixup_sparc_br22])"
  using branch_target_value [of 0
          "\<lparr>Opcode = OtherOpcode 9,
            Operands = [MCOperand_Reg 5, MCOperand_Imm 12, MCOperand_Expr (MCSymbolRefExpr ''L'')]\<rparr>"
          "sample_emitter False False (\<lambda>MI Fx. (Inr 0, Fx)) (\<lambda>MI FB. None)" "[]"]
        branch_target_value [of 1
          "\<lparr>Opcode = OtherOpcode 9,
            Operands = [MCOperand_Reg 5, MCOperand_Imm 12, MCOperand_Expr (MCSymbolRefExpr ''L'')]\<rparr>"
          "sample_emitter False False (\<lambda>MI Fx. (Inr 0, Fx)) (\<lambda>MI FB. None)" "[]"]
        branch_target_value [of 2
          "\<lparr>Opcode = OtherOpcode 9,
            Operands = [MCOperand_Reg 5, MCOperand_Imm 12, MCOperand_Expr (MCSymbolRefExpr ''L'')]\<rparr>"
          "sample_emitter False False (\<lambda>MI Fx. (Inr 0, Fx)) (\<lambda>MI FB. None)" "[]"]
  by (simp add: sample_emitter_def)


text \<open>
  C10. \<^verbatim>\<open>getSImm13OpValue\<close> on an immediate operand returns the immediate converted
  to \<^verbatim>\<open>unsigned\<close> and leaves the fixup list unchanged, for every 64-bit value: there
  is no range check, so a value outside the signed 13-bit range is accepted.
\<close>

theorem simm13_immediate_unchecked:
  assumes "OpNo < length (Operands MI)"
      and "Operands MI ! OpNo = MCOperand_Imm v"
  shows "getSImm13OpValue E MI OpNo Fx = (Inr (ucast v), Fx)"
  using assms by (simp add: getSImm13OpValue_def getOperand_def)

theorem simm13_immediate_unchecked_witness:
  "getSImm13OpValue (sample_emitter False False (\<lambda>MI Fx. (Inr 0, Fx)) (\<lambda>MI FB. None))
      \<lparr>Opcode = OtherOpcode 1, Operands = [MCOperand_Imm 4096]\<rparr> 0 [] = (Inr 4096, [])
   \<and> getSImm13OpValue (sample_emitter False False (\<lambda>MI Fx. (Inr 0, Fx)) (\<lambda>MI FB. None))
      \<lparr>Opcode = OtherOpcode 1, Operands = [MCOperand_Imm 0x100000005]\<rparr> 0 [] = (Inr 5, [])
   \<and> getSImm13OpValue (sample_emitter False False (\<lambda>MI Fx. (Inr 0, Fx)) (\<lambda>MI FB. None))
      \<lparr>Opcode = OtherOpcode 1, Operands = [MCOperand_Imm (- 5000)]\<rparr> 0 [] = (Inr 0xFFFFEC78, [])"
  using simm13_immediate_unchecked [of 0 "\<lparr>Opcode = OtherOpcode 1, Operands = [MCOperand_Imm 4096]\<rparr>"
          4096 "sample_emitter False False (\<lambda>MI Fx. (Inr 0, Fx)) (\<lambda>MI FB. None)" "[]"]
        simm13_immediate_unchecked [of 0 "\<lparr>Opcode = OtherOpcode 1, Operands = [MCOperand_Imm 0x100000005]\<rparr>"
          "0x100000005" "sample_emitter False False (\<lambda>MI Fx. (Inr 0, Fx)) (\<lambda>MI FB. None)" "[]"]
        simm13_immediate_unchecked [of 0 "\<lparr>Opcode = OtherOpcode 1, Operands = [MCOperand_Imm (- 5000)]\<rparr>"
          "- 5000" "sample_emitter False False (\<lambda>MI Fx. (Inr 0, Fx)) (\<lambda>MI FB. None)" "[]"]
  by simp


subsection \<open>Encoding an instruction\<close>

text \<open>
  C6. For an instruction with one of the five TLS opcodes whose designated operand
  (index 1 for \<open>TLS_CALL\<close>, index 3 for the add and load variants) is a TLS symbol, that
  is an expression carrying a Sparc relocation kind:
  \<^item> for \<open>TLS_CALL\<close>, \<^verbatim>\<open>getCallTargetOpValue\<close> never changes the fixup list, and
    returns 0 when the callee is \<^verbatim>\<open>__tls_get_addr\<close>;
  \<^item> \<^verbatim>\<open>getMachineOpValue\<close> resolves the designated operand to 0 and appends its fixup;
  \<^item> \<^verbatim>\<open>encodeInstruction\<close> completes, and its fixup list is the one the generated
    encoder left, followed by that fixup.
\<close>

theorem tls_operand_fixup:
  assumes opc: "Opcode MI \<in> {TLS_CALL, TLS_ADDrr, TLS_ADDXrr, TLS_LDrr, TLS_LDXrr}"
      and idx: "idx = (if Opcode MI = TLS_CALL then 1 else 3)"
      and len: "idx < length (Operands MI)"
      and sym: "Operands MI ! idx = MCOperand_Expr (SparcMCExpr K sub)"
      and verify: "verifyInstructionPredicates E MI (computeAvailableFeatures E FB) = None"
      and gen: "getBinaryCodeForInstr E MI (Fixups st) = (Inr Bits, Fx)"
  shows "(Opcode MI = TLS_CALL \<longrightarrow> snd (getCallTargetOpValue E MI OpNo Fx0) = Fx0)
       \<and> (Opcode MI = TLS_CALL \<and> OpNo < length (Operands MI) \<and>
            Operands MI ! OpNo =
              MCOperand_Expr (SparcMCExpr K0 (MCSymbolRefExpr ''__tls_get_addr'')) \<longrightarrow>
            getCallTargetOpValue E MI OpNo Fx0 = (Inr 0, Fx0))
       \<and> getMachineOpValue E MI (Operands MI ! idx) Fx =
            (Inr 0, Fx @ [MCFixup_create 0 (SparcMCExpr K sub) K])
       \<and> encodeInstruction E MI FB st =
            (Inr (),
             st\<lparr>OS := OS st @ endian_write (ucast Bits) (isLittleEndian E),
                Fixups := Fx @ [MCFixup_create 0 (SparcMCExpr K sub) K],
                MCNumEmitted := MCNumEmitted st + 1\<rparr>)"
proof (intro conjI impI)
  assume "Opcode MI = TLS_CALL"
  then show "snd (getCallTargetOpValue E MI OpNo Fx0) = Fx0"
    by (simp add: getCallTargetOpValue_def Let_def
             split: sum.splits MCOperand.splits option.splits prod.splits MCExpr.splits)
next
  assume "Opcode MI = TLS_CALL \<and> OpNo < length (Operands MI) \<and>
          Operands MI ! OpNo =
            MCOperand_Expr (SparcMCExpr K0 (MCSymbolRefExpr ''__tls_get_addr''))"
  then show "getCallTargetOpValue E MI OpNo Fx0 = (Inr 0, Fx0)"
    by (simp add: getCallTargetOpValue_def getOperand_def)
next
  show m: "getMachineOpValue E MI (Operands MI ! idx) Fx =
            (Inr 0, Fx @ [MCFixup_create 0 (SparcMCExpr K sub) K])"
    by (simp add: sym getMachineOpValue_def)
  from opc idx have t: "tlsOpNo (Opcode MI) = idx" "idx \<noteq> 0" by auto
  from len sym have g: "getOperand (NDEBUG E) MI idx = Inr (MCOperand_Expr (SparcMCExpr K sub))"
    by (simp add: getOperand_def)
  from m sym have m': "getMachineOpValue E MI (MCOperand_Expr (SparcMCExpr K sub)) Fx =
            (Inr 0, Fx @ [MCFixup_create 0 (SparcMCExpr K sub) K])" by simp
  show "encodeInstruction E MI FB st =
            (Inr (),
             st\<lparr>OS := OS st @ endian_write (ucast Bits) (isLittleEndian E),
                Fixups := Fx @ [MCFixup_create 0 (SparcMCExpr K sub) K],
                MCNumEmitted := MCNumEmitted st + 1\<rparr>)"
    by (simp add: encodeInstruction_def verify gen t g m' Let_def)
qed

theorem tls_operand_fixup_witness:
  "getCallTargetOpValue
      (sample_emitter False False (\<lambda>MI Fx. (Inr 0x40000000, Fx)) (\<lambda>MI FB. None))
      \<lparr>Opcode = TLS_CALL,
       Operands = [MCOperand_Expr (SparcMCExpr (OtherFixupKind 1) (MCSymbolRefExpr ''__tls_get_addr'')),
                   MCOperand_Expr (SparcMCExpr (OtherFixupKind 2) (MCSymbolRefExpr ''tls_var''))]\<rparr>
      0 [] = (Inr 0, [])
   \<and> encodeInstruction
      (sample_emitter False False (\<lambda>MI Fx. (Inr 0x40000000, Fx)) (\<lambda>MI FB. None))
      \<lparr>Opcode = TLS_CALL,
       Operands = [MCOperand_Expr (SparcMCExpr (OtherFixupKind 1) (MCSymbolRefExpr ''__tls_get_addr'')),
                   MCOperand_Expr (SparcMCExpr (OtherFixupKind 2) (MCSymbolRefExpr ''tls_var''))]\<rparr>
      [] \<lparr>OS = [], Fixups = [], MCNumEmitted = 7\<rparr>
     = (Inr (),
        \<lparr>OS = [0x40, 0, 0, 0],
         Fixups = [MCFixup_create 0 (SparcMCExpr (OtherFixupKind 2) (MCSymbolRefExpr ''tls_var''))
                     (OtherFixupKind 2)],
         MCNumEmitted = 8\<rparr>)
   \<and> encodeInstruction
      (sample_emitter True True (\<lambda>MI Fx. (Inr 0x90022000, Fx)) (\<lambda>MI FB. None))
      \<lparr>Opcode = TLS_ADDrr,
       Operands = [MCOperand_Reg 8, MCOperand_Reg 9, MCOperand_Reg 10,
                   MCOperand_Expr (SparcMCExpr (OtherFixupKind 4) (MCSymbolRefExpr ''tls_var''))]\<rparr>
      [] \<lparr>OS = [], Fixups = [], MCNumEmitted = 7\<rparr>
     = (Inr (),
        \<lparr>OS = [0x90, 0x02, 0x20, 0],
         Fixups = [MCFixup_create 0 (SparcMCExpr (OtherFixupKind 4) (MCSymbolRefExpr ''tls_var''))
                     (OtherFixupKind 4)],
         MCNumEmitted = 8\<rparr>)"
  using tls_operand_fixup [where
          MI = "\<lparr>Opcode = TLS_ADDrr,
       Operands = [MCOperand_Reg 8, MCOperand_Reg 9, MCOperand_Reg 10,
                   MCOperand_Expr (SparcMCExpr (OtherFixupKind 4) (MCSymbolRefExpr ''tls_var''))]\<rparr>"
          and idx = 3 and K = "OtherFixupKind 4" and sub = "MCSymbolRefExpr ''tls_var''"
          and E = "sample_emitter True True (\<lambda>MI Fx. (Inr 0x90022000, Fx)) (\<lambda>MI FB. None)"
          and FB = "[]" and st = "\<lparr>OS = [], Fixups = [], MCNumEmitted = 7\<rparr>"
          and Bits = "0x90022000" and Fx = "[]" and OpNo = 0 and Fx0 = "[]"
          and K0 = "OtherFixupKind 1"]
        tls_operand_fixup [where
          MI = "\<lparr>Opcode = TLS_CALL,
       Operands = [MCOperand_Expr (SparcMCExpr (OtherFixupKind 1) (MCSymbolRefExpr ''__tls_get_addr'')),
                   MCOperand_Expr (SparcMCExpr (OtherFixupKind 2) (MCSymbolRefExpr ''tls_var''))]\<rparr>"
          and idx = 1 and K = "OtherFixupKind 2" and sub = "MCSymbolRefExpr ''tls_var''"
          and E = "sample_emitter False False (\<lambda>MI Fx. (Inr 0x40000000, Fx)) (\<lambda>MI FB. None)"
          and FB = "[]" and st = "\<lparr>OS = [], Fixups = [], MCNumEmitted = 7\<rparr>"
          and Bits = "0x40000000" and Fx = "[]" and OpNo = 0 and Fx0 = "[]"
          and K0 = "OtherFixupKind 1"]
  by (simp add: sample_emitter_def endian_write_def)

text \<open>
  C8. A call of \<^verbatim>\<open>encodeInstruction\<close> that completes leaves \<^verbatim>\<open>MCNumEmitted\<close> one
  higher than it found it; a call that aborts with a fatal error, wherever it aborts,
  leaves it as it found it.
\<close>

theorem emission_counter:
  "(\<forall>st'. encodeInstruction E MI FB st = (Inr (), st') \<longrightarrow>
           MCNumEmitted st' = MCNumEmitted st + 1)
   \<and> (\<forall>e st'. encodeInstruction E MI FB st = (Inl e, st') \<longrightarrow>
           MCNumEmitted st' = MCNumEmitted st)"
  by (auto simp: encodeInstruction_def Let_def
           split: option.splits sum.splits prod.splits if_splits)

theorem emission_counter_witness:
  "encodeInstruction
      (sample_emitter False False (\<lambda>MI Fx. (Inr 0x81C3E008, Fx)) (\<lambda>MI FB. None))
      \<lparr>Opcode = OtherOpcode 0, Operands = []\<rparr> []
      \<lparr>OS = [], Fixups = [], MCNumEmitted = 7\<rparr>
     = (Inr (), \<lparr>OS = [0x81, 0xC3, 0xE0, 0x08], Fixups = [], MCNumEmitted = 8\<rparr>)
   \<and> encodeInstruction
      (sample_emitter False False (\<lambda>MI Fx. (Inr 0x81C3E008, Fx))
         (\<lambda>MI FB. Some (report_fatal_error ''predicate(s) are not met'')))
      \<lparr>Opcode = OtherOpcode 0, Operands = []\<rparr> []
      \<lparr>OS = [], Fixups = [], MCNumEmitted = 7\<rparr>
     = (Inl (report_fatal_error ''predicate(s) are not met''),
        \<lparr>OS = [], Fixups = [], MCNumEmitted = 7\<rparr>)
   \<and> encodeInstruction
      (sample_emitter False False (\<lambda>MI Fx. (map_sum id ucast (imm5OpEncoder 300), Fx))
         (\<lambda>MI FB. None))
      \<lparr>Opcode = OtherOpcode 0, Operands = [MCOperand_Imm 300]\<rparr> []
      \<lparr>OS = [], Fixups = [], MCNumEmitted = 7\<rparr>
     = (Inl (report_fatal_error
              ''Invalid value for ImmOp5: Value must be within [0, 255] range''),
        \<lparr>OS = [], Fixups = [], MCNumEmitted = 7\<rparr>)
   \<and> encodeInstruction
      (sample_emitter False False (\<lambda>MI Fx. (Inr 0x40000000, Fx)) (\<lambda>MI FB. None))
      \<lparr>Opcode = TLS_CALL,
       Operands = [MCOperand_Expr (SparcMCExpr (OtherFixupKind 1) (MCSymbolRefExpr ''__tls_get_addr'')),
                   MCOperand_Imm 5]\<rparr> []
      \<lparr>OS = [], Fixups = [], MCNumEmitted = 7\<rparr>
     = (Inl (assertion_failed ''Unexpected operand value!''),
        \<lparr>OS = [0x40, 0, 0, 0], Fixups = [], MCNumEmitted = 7\<rparr>)"
  using emission_counter [of
          "sample_emitter False False (\<lambda>MI Fx. (Inr 0x81C3E008, Fx)) (\<lambda>MI FB. None)"
          "\<lparr>Opcode = OtherOpcode 0, Operands = []\<rparr>" "[]"
          "\<lparr>OS = [], Fixups = [], MCNumEmitted = 7\<rparr>"]
        emission_counter [of
          "sample_emitter False False (\<lambda>MI Fx. (Inr 0x81C3E008, Fx))
             (\<lambda>MI FB. Some (report_fatal_error ''predicate(s) are not met''))"
          "\<lparr>Opcode = OtherOpcode 0, Operands = []\<rparr>" "[]"
          "\<lparr>OS = [], Fixups = [], MCNumEmitted = 7\<rparr>"]
  by (simp add: encodeInstruction_def sample_emitter_def endian_write_def imm5OpEncoder_def
        getOperand_def getMachineOpValue_def)

end
